theory Spec2Isabelle
  imports Main
begin

section \<open>The BareMetalCluster manager of cluster-api-provider-baremetal\<close>

text \<open>
  A shallow embedding of \<^verbatim>\<open>baremetal/baremetalcluster_manager.go\<close>. The manager holds
  pointers to the objects it works on and mutates them in place; here every method takes
  the manager and returns the manager after the call, next to the method's own result.
  A Go \<^verbatim>\<open>error\<close> result is an \<open>error option\<close>, \<open>None\<close> being \<^verbatim>\<open>nil\<close>; a pointer field
  that may be \<^verbatim>\<open>nil\<close> is an option too. A slice is the list of its elements, so the
  \<^verbatim>\<open>nil\<close> slice and the empty slice are both \<open>[]\<close>. Calls on the logger write nothing
  the manager reads back and are left out.
\<close>

subsection \<open>Errors\<close>

datatype error = Error string

text \<open>
  \<^verbatim>\<open>errors.New\<close> and \<^verbatim>\<open>errors.Wrapf\<close> of \<^verbatim>\<open>github.com/pkg/errors\<close>. The library
  documents of \<^verbatim>\<open>Wrapf\<close>: "If err is nil, Wrapf returns nil."
\<close>

definition errors_New :: "string \<Rightarrow> error" where
  "errors_New message = Error message"

fun errors_Wrapf :: "error option \<Rightarrow> string \<Rightarrow> error option" where
  "errors_Wrapf None message = None"
| "errors_Wrapf (Some (Error cause)) message = Some (Error (message @ '': '' @ cause))"

text \<open>A run-time panic of Go, for the one place where the manager can dereference \<^verbatim>\<open>nil\<close>.\<close>

datatype panic = NilPointerDereference

subsection \<open>Kubernetes objects\<close>

text \<open>\<^verbatim>\<open>metav1.Time\<close>, as seconds since the epoch.\<close>

type_synonym Time = int

text \<open>
  \<^verbatim>\<open>capierrors.ClusterStatusError\<close> is a string type of cluster-api; the manager uses its
  constant \<^verbatim>\<open>InvalidConfigurationClusterError\<close> only.
\<close>

type_synonym ClusterStatusError = string

definition InvalidConfigurationClusterError :: ClusterStatusError where
  "InvalidConfigurationClusterError = ''InvalidConfiguration''"

text \<open>\<^verbatim>\<open>capi.ClusterLabelName\<close>, the label the templates of the repository put on machines.\<close>

definition ClusterLabelName :: string where
  "ClusterLabelName = ''cluster.x-k8s.io/cluster-name''"

record OwnerReference =
  OwnerAPIVersion :: string
  OwnerKind :: string
  OwnerName :: string

record ObjectMeta =
  Name :: string
  Namespace :: string
  Labels :: "(string \<times> string) list"
  OwnerReferences :: "OwnerReference list"
  Finalizers :: "string list"

text \<open>
  \<^verbatim>\<open>capm3.APIEndpoint\<close>: the manager reads and writes its fields \<^verbatim>\<open>Host\<close> (a string) and
  \<^verbatim>\<open>Port\<close> (an integer, only ever compared with 0 and copied).
\<close>

record APIEndpoint =
  Host :: string
  Port :: int

text \<open>
  The spec of a BareMetalCluster. Its field \<^verbatim>\<open>ControlPlaneEndpoint\<close> carries the suffix
  \<open>_spec\<close> here, since the manager has a method of the same name.
\<close>

record BareMetalClusterSpec =
  ControlPlaneEndpoint_spec :: APIEndpoint
  NoCloudProvider :: bool

text \<open>
  The status of a BareMetalCluster. The manager reads and writes \<^verbatim>\<open>Ready\<close>,
  \<^verbatim>\<open>LastUpdated\<close>, \<^verbatim>\<open>FailureReason\<close> and \<^verbatim>\<open>FailureMessage\<close>.

  Modelled from the spec: the declaration of the status type is not among the source
  files; the field \<open>APIEndpoints\<close> is the "zero-or-more resolved API endpoints
  {host, port}" of the specification's data model (the field \<^verbatim>\<open>Status.APIEndpoints\<close> the
  manager's test file reads).
\<close>

record BareMetalClusterStatus =
  LastUpdated :: "Time option"
  FailureReason :: "ClusterStatusError option"
  FailureMessage :: "string option"
  Ready :: bool
  APIEndpoints :: "APIEndpoint list"

record BareMetalCluster =
  ObjectMeta :: ObjectMeta
  Spec :: BareMetalClusterSpec
  Status :: BareMetalClusterStatus

text \<open>
  \<^verbatim>\<open>capi.Cluster\<close> and \<^verbatim>\<open>capi.Machine\<close>, of which the manager reads the metadata only, and
  \<^verbatim>\<open>capi.MachineList\<close>.
\<close>

record Cluster =
  Cluster_ObjectMeta :: ObjectMeta

record Machine =
  Machine_ObjectMeta :: ObjectMeta

record MachineList =
  Items :: "Machine list"

subsection \<open>The object store\<close>

text \<open>
  \<^verbatim>\<open>client.Client\<close> is an interface of controller-runtime: the manager works with any
  implementation of it. A client is modelled by what it answers to the two requests the
  manager makes through it:
  \<^item> \<open>GetOwnerCluster\<close>: the result of \<^verbatim>\<open>util.GetOwnerCluster(ctx, client, meta)\<close>, a
    cluster pointer and an error;
  \<^item> \<open>List\<close>: the result of \<^verbatim>\<open>client.List(ctx, &machines, opts...)\<close> for the list options
    and the list the pointer refers to: the list after the call, and the error.
\<close>

record ListOptions =
  InNamespace :: string
  MatchingLabels :: "(string \<times> string) list"

record Client =
  GetOwnerCluster :: "ObjectMeta \<Rightarrow> Cluster option \<times> error option"
  List :: "ListOptions \<Rightarrow> MachineList \<Rightarrow> MachineList \<times> error option"

text \<open>
  A store in the manner of the fake client of the tests: it holds clusters and machines,
  resolves the owner by the first owner reference of kind \<^verbatim>\<open>Cluster\<close>, lists the machines
  of a namespace that carry every requested label, and fails a request when told to.
\<close>

fun find_cluster :: "Cluster list \<Rightarrow> string \<Rightarrow> string \<Rightarrow> Cluster option" where
  "find_cluster [] ns n = None"
| "find_cluster (c # cs) ns n =
     (if Namespace (Cluster_ObjectMeta c) = ns \<and> Name (Cluster_ObjectMeta c) = n
      then Some c else find_cluster cs ns n)"

fun store_GetOwnerCluster ::
  "Cluster list \<Rightarrow> string \<Rightarrow> OwnerReference list \<Rightarrow> Cluster option \<times> error option" where
  "store_GetOwnerCluster cs ns [] = (None, None)"
| "store_GetOwnerCluster cs ns (r # rs) =
     (if OwnerKind r = ''Cluster''
      then (case find_cluster cs ns (OwnerName r) of
              None \<Rightarrow> (None, Some (Error (''clusters '' @ OwnerName r @ '' not found'')))
            | Some c \<Rightarrow> (Some c, None))
      else store_GetOwnerCluster cs ns rs)"

definition has_labels :: "(string \<times> string) list \<Rightarrow> Machine \<Rightarrow> bool" where
  "has_labels want m =
     list_all (\<lambda>(k, v). map_of (Labels (Machine_ObjectMeta m)) k = Some v) want"

definition selected :: "ListOptions \<Rightarrow> Machine \<Rightarrow> bool" where
  "selected opts m =
     (Namespace (Machine_ObjectMeta m) = InNamespace opts \<and> has_labels (MatchingLabels opts) m)"

definition store_client :: "Cluster list \<Rightarrow> Machine list \<Rightarrow> error option \<Rightarrow> Client" where
  "store_client cs ms list_failure =
     \<lparr>GetOwnerCluster = (\<lambda>meta. store_GetOwnerCluster cs (Namespace meta) (OwnerReferences meta)),
      List = (\<lambda>opts out.
        (case list_failure of
           Some e \<Rightarrow> (out, Some e)
         | None \<Rightarrow> (\<lparr>Items = filter (selected opts) ms\<rparr>, None)))\<rparr>"

subsection \<open>The manager\<close>

text \<open>
  \<^verbatim>\<open>ClusterManager\<close>. \<^verbatim>\<open>NewClusterManager\<close> refuses a \<^verbatim>\<open>nil\<close> cluster and a \<^verbatim>\<open>nil\<close>
  BareMetalCluster, so a manager holds both objects.
\<close>

record ClusterManager =
  client :: Client
  Cluster :: Cluster
  BareMetalCluster :: BareMetalCluster

definition NewClusterManager ::
  "Client \<Rightarrow> Cluster option \<Rightarrow> BareMetalCluster option \<Rightarrow> ClusterManager option \<times> error option" where
  "NewClusterManager c cluster bareMetalCluster =
     (case bareMetalCluster of
        None \<Rightarrow> (None, Some (errors_New ''BareMetalCluster is required when creating a ClusterManager''))
      | Some bmc \<Rightarrow>
          (case cluster of
             None \<Rightarrow> (None, Some (errors_New ''Cluster is required when creating a ClusterManager''))
           | Some cl \<Rightarrow> (Some \<lparr>client = c, Cluster = cl, BareMetalCluster = bmc\<rparr>, None)))"

text \<open>
  \<^verbatim>\<open>util.Contains\<close> and \<^verbatim>\<open>util.Filter\<close> of cluster-api: a loop over the list that looks
  for the string, and a loop that appends every other string to a new list.
\<close>

fun Contains :: "string list \<Rightarrow> string \<Rightarrow> bool" where
  "Contains [] strToSearch = False"
| "Contains (item # list) strToSearch =
     (if item = strToSearch then True else Contains list strToSearch)"

fun Filter :: "string list \<Rightarrow> string \<Rightarrow> string list" where
  "Filter [] strToFilter = []"
| "Filter (item # list) strToFilter =
     (if item \<noteq> strToFilter then item # Filter list strToFilter else Filter list strToFilter)"

definition set_Finalizers :: "string list \<Rightarrow> ClusterManager \<Rightarrow> ClusterManager" where
  "set_Finalizers fs s =
     s\<lparr>BareMetalCluster := (BareMetalCluster s)
         \<lparr>ObjectMeta := (ObjectMeta (BareMetalCluster s))\<lparr>Finalizers := fs\<rparr>\<rparr>\<rparr>"

text \<open>
  \<^verbatim>\<open>SetFinalizer\<close> and \<^verbatim>\<open>UnsetFinalizer\<close>. The constant \<^verbatim>\<open>capm3.ClusterFinalizer\<close> is
  declared outside the source files at hand: it is the first argument here.
\<close>

definition SetFinalizer :: "string \<Rightarrow> ClusterManager \<Rightarrow> ClusterManager" where
  "SetFinalizer ClusterFinalizer s =
     (if \<not> Contains (Finalizers (ObjectMeta (BareMetalCluster s))) ClusterFinalizer
      then set_Finalizers (Finalizers (ObjectMeta (BareMetalCluster s)) @ [ClusterFinalizer]) s
      else s)"

definition UnsetFinalizer :: "string \<Rightarrow> ClusterManager \<Rightarrow> ClusterManager" where
  "UnsetFinalizer ClusterFinalizer s =
     set_Finalizers (Filter (Finalizers (ObjectMeta (BareMetalCluster s))) ClusterFinalizer) s"

definition set_Status :: "BareMetalClusterStatus \<Rightarrow> ClusterManager \<Rightarrow> ClusterManager" where
  "set_Status st s = s\<lparr>BareMetalCluster := (BareMetalCluster s)\<lparr>Status := st\<rparr>\<rparr>"

definition setError :: "string \<Rightarrow> ClusterStatusError \<Rightarrow> ClusterManager \<Rightarrow> ClusterManager" where
  "setError message reason s =
     set_Status ((Status (BareMetalCluster s))
       \<lparr>FailureMessage := Some message, FailureReason := Some reason\<rparr>) s"

definition clearError :: "ClusterManager \<Rightarrow> ClusterManager" where
  "clearError s =
     (if FailureMessage (Status (BareMetalCluster s)) \<noteq> None
         \<or> FailureReason (Status (BareMetalCluster s)) \<noteq> None
      then set_Status ((Status (BareMetalCluster s))
             \<lparr>FailureMessage := None, FailureReason := None\<rparr>) s
      else s)"

text \<open>
  \<^verbatim>\<open>Create\<close>. The method \<^verbatim>\<open>IsValid\<close> of the spec type is declared outside the source
  files at hand: it is the first argument here, a function from the spec to an error.
\<close>

definition Create ::
  "(BareMetalClusterSpec \<Rightarrow> error option) \<Rightarrow> ClusterManager \<Rightarrow> ClusterManager \<times> error option" where
  "Create IsValid s =
     (let config = Spec (BareMetalCluster s) in
      case IsValid config of
        Some err \<Rightarrow>
          (setError ''Invalid BareMetalCluster provided'' InvalidConfigurationClusterError s, Some err)
      | None \<Rightarrow> (clearError s, None))"

text \<open>
  \<^verbatim>\<open>ControlPlaneEndpoint\<close>. The variable \<^verbatim>\<open>err\<close> is declared (\<^verbatim>\<open>var err error\<close>, so it is
  \<^verbatim>\<open>nil\<close>) and never assigned before it is logged and returned.
\<close>

definition ControlPlaneEndpoint :: "ClusterManager \<Rightarrow> APIEndpoint list \<times> error option" where
  "ControlPlaneEndpoint s =
     (let endPoint = ControlPlaneEndpoint_spec (Spec (BareMetalCluster s));
          err = (None :: error option) in
      if Host endPoint = [] \<or> Port endPoint = 0 then ([], err)
      else ([\<lparr>Host = Host endPoint, Port = Port endPoint\<rparr>], None))"

definition Delete :: "ClusterManager \<Rightarrow> ClusterManager \<times> error option" where
  "Delete s = (s, None)"

text \<open>
  \<^verbatim>\<open>UpdateClusterStatus\<close>. The first argument is what \<^verbatim>\<open>metav1.Now()\<close> returns during the
  call. The endpoints \<^verbatim>\<open>ControlPlaneEndpoint\<close> returns are dropped (\<^verbatim>\<open>_, err := ...\<close>).
\<close>

definition UpdateClusterStatus :: "Time \<Rightarrow> ClusterManager \<Rightarrow> ClusterManager \<times> error option" where
  "UpdateClusterStatus now s =
     (case snd (ControlPlaneEndpoint s) of
        Some err \<Rightarrow>
          (setError ''Invalid ControlPlaneEndpoint values'' InvalidConfigurationClusterError
             (set_Status ((Status (BareMetalCluster s))\<lparr>Ready := False\<rparr>) s),
           Some err)
      | None \<Rightarrow>
          (let s1 = set_Status ((Status (BareMetalCluster s))\<lparr>Ready := True\<rparr>) s;
               s2 = set_Status ((Status (BareMetalCluster s1))\<lparr>LastUpdated := Some now\<rparr>) s1
           in (s2, None)))"

text \<open>
  \<^verbatim>\<open>listDescendants\<close>. When \<^verbatim>\<open>util.GetOwnerCluster\<close> returns a \<^verbatim>\<open>nil\<close> cluster and a
  \<^verbatim>\<open>nil\<close> error, reading \<^verbatim>\<open>cluster.Namespace\<close> panics. When the list request fails, the
  method wraps \<^verbatim>\<open>err\<close>, the error of the owner lookup, which is \<^verbatim>\<open>nil\<close> at that point.
\<close>

definition listDescendants :: "ClusterManager \<Rightarrow> panic + (MachineList \<times> error option)" where
  "listDescendants s =
     (let machines = \<lparr>Items = []\<rparr>;
          (cluster, err) = GetOwnerCluster (client s) (ObjectMeta (BareMetalCluster s)) in
      case err of
        Some e \<Rightarrow> Inr (machines, err)
      | None \<Rightarrow>
          (case cluster of
             None \<Rightarrow> Inl NilPointerDereference
           | Some cl \<Rightarrow>
               (let listOptions =
                      \<lparr>InNamespace = Namespace (Cluster_ObjectMeta cl),
                       MatchingLabels = [(ClusterLabelName, Name (Cluster_ObjectMeta cl))]\<rparr>;
                    (machines', list_err) = List (client s) listOptions machines in
                if list_err \<noteq> None
                then (let errMsg = ''failed to list BaremetalMachines for cluster ''
                            @ Namespace (Cluster_ObjectMeta cl) @ ''/'' @ Name (Cluster_ObjectMeta cl)
                      in Inr (machines', errors_Wrapf err errMsg))
                else Inr (machines', None))))"

definition CountDescendants :: "ClusterManager \<Rightarrow> panic + (int \<times> error option)" where
  "CountDescendants s =
     (case listDescendants s of
        Inl p \<Rightarrow> Inl p
      | Inr (descendants, err) \<Rightarrow>
          (case err of
             Some e \<Rightarrow> Inr (0, err)
           | None \<Rightarrow> (let nbDescendants = int (length (Items descendants)) in Inr (nbDescendants, None))))"

subsection \<open>Sequences of calls\<close>

text \<open>
  The calls a reconciler can make on a manager, and their effect one after the other.
  The methods without a result (\<^verbatim>\<open>SetFinalizer\<close>, \<^verbatim>\<open>UnsetFinalizer\<close>, \<^verbatim>\<open>setError\<close>,
  \<^verbatim>\<open>clearError\<close>) have no error to return: their call yields \<open>None\<close>.
\<close>

datatype call =
    CallCreate
  | CallUpdateClusterStatus Time
  | CallSetError string ClusterStatusError
  | CallClearError
  | CallSetFinalizer
  | CallUnsetFinalizer
  | CallDelete

fun do_call ::
  "(BareMetalClusterSpec \<Rightarrow> error option) \<Rightarrow> string \<Rightarrow> ClusterManager \<Rightarrow> call
     \<Rightarrow> ClusterManager \<times> error option" where
  "do_call IsValid fin s CallCreate = Create IsValid s"
| "do_call IsValid fin s (CallUpdateClusterStatus now) = UpdateClusterStatus now s"
| "do_call IsValid fin s (CallSetError message reason) = (setError message reason s, None)"
| "do_call IsValid fin s CallClearError = (clearError s, None)"
| "do_call IsValid fin s CallSetFinalizer = (SetFinalizer fin s, None)"
| "do_call IsValid fin s CallUnsetFinalizer = (UnsetFinalizer fin s, None)"
| "do_call IsValid fin s CallDelete = Delete s"

fun do_calls ::
  "(BareMetalClusterSpec \<Rightarrow> error option) \<Rightarrow> string \<Rightarrow> ClusterManager \<Rightarrow> call list
     \<Rightarrow> ClusterManager" where
  "do_calls IsValid fin s [] = s"
| "do_calls IsValid fin s (c # cs) = do_calls IsValid fin (fst (do_call IsValid fin s c)) cs"

text \<open>The two error fields of the status are paired: both set or both unset.\<close>

definition paired :: "BareMetalClusterStatus \<Rightarrow> bool" where
  "paired st = ((FailureMessage st = None) = (FailureReason st = None))"

subsection \<open>Example objects\<close>

text \<open>
  Objects in the manner of the manager's tests: a cluster \<^verbatim>\<open>testCluster\<close> in the namespace
  \<^verbatim>\<open>testNameSpace\<close>, a BareMetalCluster it owns, machines with the cluster's label, and a
  validation that asks for a host and a port.
\<close>

definition testMeta :: "string \<Rightarrow> (string \<times> string) list \<Rightarrow> string list \<Rightarrow> ObjectMeta" where
  "testMeta n ls fs =
     \<lparr>Name = n, Namespace = ''testNameSpace'', Labels = ls,
      OwnerReferences =
        [\<lparr>OwnerAPIVersion = ''cluster.x-k8s.io/v1alpha3'', OwnerKind = ''Cluster'',
          OwnerName = ''testCluster''\<rparr>],
      Finalizers = fs\<rparr>"

definition testCluster :: Cluster where
  "testCluster =
     \<lparr>Cluster_ObjectMeta =
        \<lparr>Name = ''testCluster'', Namespace = ''testNameSpace'', Labels = [],
         OwnerReferences = [], Finalizers = []\<rparr>\<rparr>"

definition testMachine :: "string \<Rightarrow> Machine" where
  "testMachine n = \<lparr>Machine_ObjectMeta = testMeta n [(ClusterLabelName, ''testCluster'')] []\<rparr>"

definition emptyStatus :: BareMetalClusterStatus where
  "emptyStatus =
     \<lparr>LastUpdated = None, FailureReason = None, FailureMessage = None, Ready = False,
      APIEndpoints = []\<rparr>"

definition failedStatus :: BareMetalClusterStatus where
  "failedStatus =
     \<lparr>LastUpdated = None, FailureReason = Some InvalidConfigurationClusterError,
      FailureMessage = Some ''cba'', Ready = False, APIEndpoints = []\<rparr>"

definition testManager ::
  "Client \<Rightarrow> string list \<Rightarrow> APIEndpoint \<Rightarrow> BareMetalClusterStatus \<Rightarrow> ClusterManager" where
  "testManager c fs ep st =
     \<lparr>client = c, Cluster = testCluster,
      BareMetalCluster =
        \<lparr>ObjectMeta = testMeta ''testBaremetalCluster'' [] fs,
         Spec = \<lparr>ControlPlaneEndpoint_spec = ep, NoCloudProvider = True\<rparr>,
         Status = st\<rparr>\<rparr>"

definition host_and_port_required :: "BareMetalClusterSpec \<Rightarrow> error option" where
  "host_and_port_required config =
     (if Host (ControlPlaneEndpoint_spec config) = [] \<or> Port (ControlPlaneEndpoint_spec config) = 0
      then Some (Error ''Missing fields from Spec'') else None)"

text \<open>
  Clients over a store: one that answers, one whose list request fails, one that holds
  machines of another namespace and of another cluster too, and one without the cluster.
\<close>

definition testClient :: Client where
  "testClient = store_client [testCluster] [] None"

definition failingClient :: Client where
  "failingClient =
     store_client [testCluster] [testMachine ''machine1''] (Some (Error ''connection refused''))"

definition mixedClient :: Client where
  "mixedClient =
     store_client [testCluster]
       [testMachine ''machine1'',
        \<lparr>Machine_ObjectMeta = (testMeta ''elsewhere'' [(ClusterLabelName, ''testCluster'')] [])
           \<lparr>Namespace := ''otherNameSpace''\<rparr>\<rparr>,
        \<lparr>Machine_ObjectMeta = testMeta ''stranger'' [(ClusterLabelName, ''otherCluster'')] []\<rparr>,
        testMachine ''machine2'']
       None"

definition orphanClient :: Client where
  "orphanClient = store_client [] [testMachine ''machine1''] None"

section \<open>Properties\<close>

subsection \<open>Auxiliary facts\<close>

lemma Contains_set: "Contains xs x = (x \<in> set xs)"
  by (induction xs) auto

lemma Filter_filter: "Filter xs x = filter (\<lambda>y. y \<noteq> x) xs"
  by (induction xs) auto

lemma Filter_absent: "x \<notin> set xs \<Longrightarrow> Filter xs x = xs"
  by (induction xs) auto

lemma ControlPlaneEndpoint_err: "snd (ControlPlaneEndpoint s) = None"
  by (simp add: ControlPlaneEndpoint_def Let_def)

lemma UpdateClusterStatus_unfold:
  "UpdateClusterStatus now s =
     (set_Status ((Status (BareMetalCluster s))\<lparr>Ready := True, LastUpdated := Some now\<rparr>) s, None)"
  by (simp add: UpdateClusterStatus_def ControlPlaneEndpoint_err set_Status_def Let_def)

lemma Status_set_Status: "Status (BareMetalCluster (set_Status st s)) = st"
  by (simp add: set_Status_def)

lemma Status_set_Finalizers: "Status (BareMetalCluster (set_Finalizers fs s)) = Status (BareMetalCluster s)"
  by (simp add: set_Finalizers_def)

lemma set_Finalizers_same: "set_Finalizers (Finalizers (ObjectMeta (BareMetalCluster s))) s = s"
  by (simp add: set_Finalizers_def)

lemma Finalizers_set_Finalizers: "Finalizers (ObjectMeta (BareMetalCluster (set_Finalizers fs s))) = fs"
  by (simp add: set_Finalizers_def)

lemma SetFinalizer_twice: "SetFinalizer fin (SetFinalizer fin s) = SetFinalizer fin s"
  by (simp add: SetFinalizer_def Contains_set Finalizers_set_Finalizers)

lemma UnsetFinalizer_absent:
  "fin \<notin> set (Finalizers (ObjectMeta (BareMetalCluster s))) \<Longrightarrow> UnsetFinalizer fin s = s"
  by (simp add: UnsetFinalizer_def Filter_absent set_Finalizers_same)

lemma paired_setError: "paired (Status (BareMetalCluster (setError m r s)))"
  by (simp add: setError_def paired_def Status_set_Status)

lemma paired_clearError: "paired (Status (BareMetalCluster (clearError s)))"
  by (simp add: clearError_def paired_def Status_set_Status)

lemma paired_UpdateClusterStatus:
  "paired (Status (BareMetalCluster s)) \<Longrightarrow>
   paired (Status (BareMetalCluster (fst (UpdateClusterStatus now s))))"
  by (simp add: UpdateClusterStatus_unfold Status_set_Status paired_def)

lemma paired_Create: "paired (Status (BareMetalCluster (fst (Create IsValid s))))"
  by (simp add: Create_def Let_def paired_setError paired_clearError split: option.splits)

lemma paired_do_call:
  "paired (Status (BareMetalCluster s)) \<Longrightarrow>
   paired (Status (BareMetalCluster (fst (do_call IsValid fin s c))))"
proof (cases c)
  case CallCreate
  then show ?thesis by (simp add: paired_Create)
next
  case (CallUpdateClusterStatus now)
  assume "paired (Status (BareMetalCluster s))"
  with CallUpdateClusterStatus show ?thesis by (simp add: paired_UpdateClusterStatus)
next
  case (CallSetError m r)
  then show ?thesis by (simp add: paired_setError)
next
  case CallClearError
  then show ?thesis by (simp add: paired_clearError)
next
  case CallSetFinalizer
  assume "paired (Status (BareMetalCluster s))"
  with CallSetFinalizer show ?thesis by (simp add: SetFinalizer_def Status_set_Finalizers)
next
  case CallUnsetFinalizer
  assume "paired (Status (BareMetalCluster s))"
  with CallUnsetFinalizer show ?thesis by (simp add: UnsetFinalizer_def Status_set_Finalizers)
next
  case CallDelete
  assume "paired (Status (BareMetalCluster s))"
  with CallDelete show ?thesis by (simp add: Delete_def)
qed

lemma paired_do_calls:
  "paired (Status (BareMetalCluster s)) \<Longrightarrow> paired (Status (BareMetalCluster (do_calls IsValid fin s cs)))"
  by (induction cs arbitrary: s) (auto simp: paired_do_call)

lemma testManager_simps:
  "client (testManager c fs ep st) = c"
  "Status (BareMetalCluster (testManager c fs ep st)) = st"
  "Spec (BareMetalCluster (testManager c fs ep st)) = \<lparr>ControlPlaneEndpoint_spec = ep, NoCloudProvider = True\<rparr>"
  "ObjectMeta (BareMetalCluster (testManager c fs ep st)) = testMeta ''testBaremetalCluster'' [] fs"
  by (simp_all add: testManager_def)

lemma listDescendants_listed:
  assumes "GetOwnerCluster (client s) (ObjectMeta (BareMetalCluster s)) = (Some cl, None)"
    and "List (client s)
           \<lparr>InNamespace = Namespace (Cluster_ObjectMeta cl),
            MatchingLabels = [(ClusterLabelName, Name (Cluster_ObjectMeta cl))]\<rparr>
           \<lparr>Items = []\<rparr> = (ml, e)"
  shows "listDescendants s = Inr (ml, None)"
  using assms by (simp add: listDescendants_def Let_def)

lemma CountDescendants_no_owner_panics:
  assumes "GetOwnerCluster (client s) (ObjectMeta (BareMetalCluster s)) = (None, None)"
  shows "CountDescendants s = Inl NilPointerDereference"
  using assms by (simp add: CountDescendants_def listDescendants_def Let_def)

subsection \<open>Construction\<close>

text \<open>
  C4. \<^verbatim>\<open>NewClusterManager\<close> fails, returning no manager and an error, exactly when the
  cluster or the BareMetalCluster is \<^verbatim>\<open>nil\<close>; given both, it returns a manager that holds
  them, and no error.
\<close>

theorem NewClusterManager_fails_iff_absent:
  "((fst (NewClusterManager c cluster bareMetalCluster) = None
      \<and> snd (NewClusterManager c cluster bareMetalCluster) \<noteq> None)
     = (cluster = None \<or> bareMetalCluster = None))
   \<and> (\<forall>cl bmc. NewClusterManager c (Some cl) (Some bmc)
         = (Some \<lparr>client = c, Cluster = cl, BareMetalCluster = bmc\<rparr>, None))"
  by (simp add: NewClusterManager_def split: option.splits)

text \<open>
  The construction at a missing cluster, at a missing BareMetalCluster, and at both given.
\<close>

theorem NewClusterManager_fails_iff_absent_witness:
  "fst (NewClusterManager testClient None
          (Some (BareMetalCluster (testManager testClient [] \<lparr>Host = [], Port = 0\<rparr> emptyStatus))))
     = None
   \<and> snd (NewClusterManager testClient None
          (Some (BareMetalCluster (testManager testClient [] \<lparr>Host = [], Port = 0\<rparr> emptyStatus))))
     \<noteq> None
   \<and> fst (NewClusterManager testClient (Some testCluster) None) = None
   \<and> snd (NewClusterManager testClient (Some testCluster) None) \<noteq> None
   \<and> fst (NewClusterManager testClient (Some testCluster)
          (Some (BareMetalCluster (testManager testClient [] \<lparr>Host = [], Port = 0\<rparr> emptyStatus))))
     = Some (testManager testClient [] \<lparr>Host = [], Port = 0\<rparr> emptyStatus)
   \<and> snd (NewClusterManager testClient (Some testCluster)
          (Some (BareMetalCluster (testManager testClient [] \<lparr>Host = [], Port = 0\<rparr> emptyStatus))))
     = None"
  using NewClusterManager_fails_iff_absent
    [of testClient None
      "Some (BareMetalCluster (testManager testClient [] \<lparr>Host = [], Port = 0\<rparr> emptyStatus))"]
    NewClusterManager_fails_iff_absent [of testClient "Some testCluster" None]
    NewClusterManager_fails_iff_absent [of testClient "Some testCluster"
      "Some (BareMetalCluster (testManager testClient [] \<lparr>Host = [], Port = 0\<rparr> emptyStatus))"]
  by (simp add: testManager_def)

subsection \<open>Finalizers\<close>

text \<open>
  C5. \<^verbatim>\<open>SetFinalizer\<close> is idempotent: a second call changes nothing, for every list of
  finalizers. \<^verbatim>\<open>UnsetFinalizer\<close> leaves a list without the cluster finalizer as it is.
  Neither call yields an error. The property holds whatever string the cluster finalizer is.
\<close>

theorem SetFinalizer_idempotent_UnsetFinalizer_noop:
  "SetFinalizer fin (SetFinalizer fin s) = SetFinalizer fin s
   \<and> Finalizers (ObjectMeta (BareMetalCluster (SetFinalizer fin (SetFinalizer fin s))))
       = Finalizers (ObjectMeta (BareMetalCluster (SetFinalizer fin s)))
   \<and> (fin \<notin> set (Finalizers (ObjectMeta (BareMetalCluster s))) \<longrightarrow>
        UnsetFinalizer fin s = s
        \<and> Finalizers (ObjectMeta (BareMetalCluster (UnsetFinalizer fin s)))
            = Finalizers (ObjectMeta (BareMetalCluster s)))
   \<and> snd (do_call IsValid fin s CallSetFinalizer) = None
   \<and> snd (do_call IsValid fin s CallUnsetFinalizer) = None"
  by (simp add: SetFinalizer_twice UnsetFinalizer_absent)

text \<open>
  A list that holds another finalizer: unsetting the absent one keeps the list, setting it
  twice appends it once.
\<close>

theorem SetFinalizer_idempotent_UnsetFinalizer_noop_witness:
  "''other'' \<notin> set (Finalizers (ObjectMeta (BareMetalCluster
       (testManager testClient [''foo''] \<lparr>Host = [], Port = 0\<rparr> emptyStatus))))
   \<and> Finalizers (ObjectMeta (BareMetalCluster (UnsetFinalizer ''other''
       (testManager testClient [''foo''] \<lparr>Host = [], Port = 0\<rparr> emptyStatus)))) = [''foo'']
   \<and> Finalizers (ObjectMeta (BareMetalCluster (SetFinalizer ''other'' (SetFinalizer ''other''
       (testManager testClient [''foo''] \<lparr>Host = [], Port = 0\<rparr> emptyStatus)))))
      = [''foo'', ''other'']"
  using SetFinalizer_idempotent_UnsetFinalizer_noop
    [of "''other''" "testManager testClient [''foo''] \<lparr>Host = [], Port = 0\<rparr> emptyStatus"
      host_and_port_required]
  by (simp add: testManager_simps testMeta_def SetFinalizer_def Finalizers_set_Finalizers)

text \<open>
  After \<^verbatim>\<open>SetFinalizer\<close> the finalizer is in the list, after \<^verbatim>\<open>UnsetFinalizer\<close> it is not,
  and no other finalizer comes or goes.
\<close>

theorem SetFinalizer_adds_UnsetFinalizer_removes:
  "fin \<in> set (Finalizers (ObjectMeta (BareMetalCluster (SetFinalizer fin s))))
   \<and> fin \<notin> set (Finalizers (ObjectMeta (BareMetalCluster (UnsetFinalizer fin s))))
   \<and> set (Finalizers (ObjectMeta (BareMetalCluster (SetFinalizer fin s))))
       = insert fin (set (Finalizers (ObjectMeta (BareMetalCluster s))))
   \<and> set (Finalizers (ObjectMeta (BareMetalCluster (UnsetFinalizer fin s))))
       = set (Finalizers (ObjectMeta (BareMetalCluster s))) - {fin}"
  by (auto simp: SetFinalizer_def UnsetFinalizer_def Finalizers_set_Finalizers Contains_set
      Filter_filter)

subsection \<open>The error record\<close>

text \<open>
  C6. Whatever the status held before, \<^verbatim>\<open>setError\<close> followed by \<^verbatim>\<open>clearError\<close> leaves
  \<^verbatim>\<open>FailureMessage\<close> and \<^verbatim>\<open>FailureReason\<close> unset; \<^verbatim>\<open>clearError\<close> on a status with both
  unset changes nothing.
\<close>

theorem setError_then_clearError:
  "FailureMessage (Status (BareMetalCluster (clearError (setError message reason s)))) = None
   \<and> FailureReason (Status (BareMetalCluster (clearError (setError message reason s)))) = None
   \<and> (FailureMessage (Status (BareMetalCluster s)) = None
        \<and> FailureReason (Status (BareMetalCluster s)) = None \<longrightarrow> clearError s = s)"
  by (simp add: clearError_def setError_def Status_set_Status)

text \<open>
  \<^verbatim>\<open>clearError\<close> on an empty status, and \<^verbatim>\<open>setError\<close> then \<^verbatim>\<open>clearError\<close> on a status
  that already held an error.
\<close>

theorem setError_then_clearError_witness:
  "FailureMessage (Status (BareMetalCluster
      (testManager testClient [] \<lparr>Host = [], Port = 0\<rparr> emptyStatus))) = None
   \<and> FailureReason (Status (BareMetalCluster
      (testManager testClient [] \<lparr>Host = [], Port = 0\<rparr> emptyStatus))) = None
   \<and> clearError (testManager testClient [] \<lparr>Host = [], Port = 0\<rparr> emptyStatus)
       = testManager testClient [] \<lparr>Host = [], Port = 0\<rparr> emptyStatus
   \<and> FailureMessage (Status (BareMetalCluster (clearError (setError ''abc''
        InvalidConfigurationClusterError
        (testManager testClient [] \<lparr>Host = [], Port = 0\<rparr> failedStatus))))) = None
   \<and> FailureReason (Status (BareMetalCluster (clearError (setError ''abc''
        InvalidConfigurationClusterError
        (testManager testClient [] \<lparr>Host = [], Port = 0\<rparr> failedStatus))))) = None"
  using setError_then_clearError
    [of "''abc''" InvalidConfigurationClusterError
      "testManager testClient [] \<lparr>Host = [], Port = 0\<rparr> emptyStatus"]
    setError_then_clearError
    [of "''abc''" InvalidConfigurationClusterError
      "testManager testClient [] \<lparr>Host = [], Port = 0\<rparr> failedStatus"]
  by (simp add: testManager_simps emptyStatus_def)

text \<open>
  C7. \<^verbatim>\<open>Create\<close> validates the spec. When the validation fails, it records the message
  \<^verbatim>\<open>Invalid BareMetalCluster provided\<close> with the invalid-configuration reason and returns
  the validation's error; when it succeeds, both error fields end unset and no error is
  returned. The property holds for every validation function.
\<close>

theorem Create_records_or_clears_error:
  "(\<forall>err. IsValid (Spec (BareMetalCluster s)) = Some err \<longrightarrow>
       snd (Create IsValid s) = Some err
       \<and> FailureReason (Status (BareMetalCluster (fst (Create IsValid s))))
           = Some InvalidConfigurationClusterError
       \<and> FailureMessage (Status (BareMetalCluster (fst (Create IsValid s))))
           = Some ''Invalid BareMetalCluster provided'')
   \<and> (IsValid (Spec (BareMetalCluster s)) = None \<longrightarrow>
       snd (Create IsValid s) = None
       \<and> FailureReason (Status (BareMetalCluster (fst (Create IsValid s)))) = None
       \<and> FailureMessage (Status (BareMetalCluster (fst (Create IsValid s)))) = None)"
  by (simp add: Create_def Let_def setError_def clearError_def Status_set_Status)

text \<open>
  A validation that asks for a host and a port: \<^verbatim>\<open>Create\<close> on a spec without them, and
  \<^verbatim>\<open>Create\<close> on a complete spec whose status held an error.
\<close>

theorem Create_records_or_clears_error_witness:
  "host_and_port_required (Spec (BareMetalCluster
      (testManager testClient [] \<lparr>Host = [], Port = 0\<rparr> emptyStatus)))
     = Some (Error ''Missing fields from Spec'')
   \<and> snd (Create host_and_port_required
        (testManager testClient [] \<lparr>Host = [], Port = 0\<rparr> emptyStatus))
     = Some (Error ''Missing fields from Spec'')
   \<and> FailureReason (Status (BareMetalCluster (fst (Create host_and_port_required
        (testManager testClient [] \<lparr>Host = [], Port = 0\<rparr> emptyStatus)))))
     = Some InvalidConfigurationClusterError
   \<and> host_and_port_required (Spec (BareMetalCluster
      (testManager testClient [] \<lparr>Host = ''192.168.111.249'', Port = 6443\<rparr> failedStatus)))
     = None
   \<and> snd (Create host_and_port_required
        (testManager testClient [] \<lparr>Host = ''192.168.111.249'', Port = 6443\<rparr> failedStatus))
     = None
   \<and> FailureReason (Status (BareMetalCluster (fst (Create host_and_port_required
        (testManager testClient [] \<lparr>Host = ''192.168.111.249'', Port = 6443\<rparr> failedStatus)))))
     = None
   \<and> FailureMessage (Status (BareMetalCluster (fst (Create host_and_port_required
        (testManager testClient [] \<lparr>Host = ''192.168.111.249'', Port = 6443\<rparr> failedStatus)))))
     = None"
  using Create_records_or_clears_error
    [of host_and_port_required "testManager testClient [] \<lparr>Host = [], Port = 0\<rparr> emptyStatus"]
    Create_records_or_clears_error
    [of host_and_port_required
      "testManager testClient [] \<lparr>Host = ''192.168.111.249'', Port = 6443\<rparr> failedStatus"]
  by (simp add: testManager_simps host_and_port_required_def)

text \<open>
  C9. Starting from a status with both error fields unset, after any sequence of calls of
  \<^verbatim>\<open>Create\<close>, \<^verbatim>\<open>UpdateClusterStatus\<close>, \<^verbatim>\<open>setError\<close>, \<^verbatim>\<open>clearError\<close>,
  \<^verbatim>\<open>SetFinalizer\<close>, \<^verbatim>\<open>UnsetFinalizer\<close> and \<^verbatim>\<open>Delete\<close>, \<^verbatim>\<open>FailureMessage\<close> and
  \<^verbatim>\<open>FailureReason\<close> are both set or both unset. A call that returns an error does not end
  the sequence.
\<close>

theorem error_fields_paired_after_calls:
  assumes "FailureMessage (Status (BareMetalCluster s)) = None"
    and "FailureReason (Status (BareMetalCluster s)) = None"
  shows "(FailureMessage (Status (BareMetalCluster (do_calls IsValid fin s cs))) = None)
       = (FailureReason (Status (BareMetalCluster (do_calls IsValid fin s cs))) = None)"
proof -
  have "paired (Status (BareMetalCluster s))"
    using assms by (simp add: paired_def)
  then have "paired (Status (BareMetalCluster (do_calls IsValid fin s cs)))"
    by (rule paired_do_calls)
  then show ?thesis
    by (simp add: paired_def)
qed

text \<open>
  A sequence with a failing \<^verbatim>\<open>Create\<close> in it, from an empty status.
\<close>

theorem error_fields_paired_after_calls_witness:
  "FailureMessage (Status (BareMetalCluster
      (testManager testClient [] \<lparr>Host = [], Port = 0\<rparr> emptyStatus))) = None
   \<and> FailureReason (Status (BareMetalCluster
      (testManager testClient [] \<lparr>Host = [], Port = 0\<rparr> emptyStatus))) = None
   \<and> (FailureMessage (Status (BareMetalCluster (do_calls host_and_port_required ''fin''
         (testManager testClient [] \<lparr>Host = [], Port = 0\<rparr> emptyStatus)
         [CallSetFinalizer, CallCreate, CallUpdateClusterStatus 1000, CallDelete]))) = None)
     = (FailureReason (Status (BareMetalCluster (do_calls host_and_port_required ''fin''
         (testManager testClient [] \<lparr>Host = [], Port = 0\<rparr> emptyStatus)
         [CallSetFinalizer, CallCreate, CallUpdateClusterStatus 1000, CallDelete]))) = None)"
  using error_fields_paired_after_calls
    [of "testManager testClient [] \<lparr>Host = [], Port = 0\<rparr> emptyStatus" host_and_port_required
      "''fin''" "[CallSetFinalizer, CallCreate, CallUpdateClusterStatus 1000, CallDelete]"]
  by (simp add: testManager_simps emptyStatus_def)

subsection \<open>The control-plane endpoint and the status\<close>

text \<open>
  C10. \<^verbatim>\<open>ControlPlaneEndpoint\<close> returns a \<^verbatim>\<open>nil\<close> error for every spec; for an empty
  host or a zero port it returns no endpoint next to it. So \<^verbatim>\<open>UpdateClusterStatus\<close> never
  takes its error branch: for every spec it returns no error and sets \<^verbatim>\<open>Ready\<close>.
\<close>

theorem ControlPlaneEndpoint_never_fails:
  "snd (ControlPlaneEndpoint s) = None
   \<and> (Host (ControlPlaneEndpoint_spec (Spec (BareMetalCluster s))) = []
        \<or> Port (ControlPlaneEndpoint_spec (Spec (BareMetalCluster s))) = 0
       \<longrightarrow> ControlPlaneEndpoint s = ([], None))
   \<and> snd (UpdateClusterStatus now s) = None
   \<and> Ready (Status (BareMetalCluster (fst (UpdateClusterStatus now s)))) = True"
  by (simp add: UpdateClusterStatus_unfold Status_set_Status ControlPlaneEndpoint_def Let_def)

text \<open>
  A spec with a port and no host.
\<close>

theorem ControlPlaneEndpoint_never_fails_witness:
  "Host (ControlPlaneEndpoint_spec (Spec (BareMetalCluster
      (testManager testClient [] \<lparr>Host = [], Port = 6443\<rparr> emptyStatus)))) = []
   \<and> ControlPlaneEndpoint (testManager testClient [] \<lparr>Host = [], Port = 6443\<rparr> emptyStatus)
       = ([], None)
   \<and> snd (UpdateClusterStatus 1000
        (testManager testClient [] \<lparr>Host = [], Port = 6443\<rparr> emptyStatus)) = None
   \<and> Ready (Status (BareMetalCluster (fst (UpdateClusterStatus 1000
        (testManager testClient [] \<lparr>Host = [], Port = 6443\<rparr> emptyStatus)))))"
  using ControlPlaneEndpoint_never_fails
    [of "testManager testClient [] \<lparr>Host = [], Port = 6443\<rparr> emptyStatus" 1000]
  by (simp add: testManager_simps)

text \<open>
  C1. For a spec with an empty host or a zero port, \<^verbatim>\<open>UpdateClusterStatus\<close> is to set
  \<^verbatim>\<open>Ready\<close> to false, record an error with the invalid-configuration reason and return an
  error. The method does none of it: at the endpoint with the empty host and the port 0,
  on an empty status, it returns no error, sets \<^verbatim>\<open>Ready\<close>, stamps the time and leaves both
  error fields unset.
\<close>

theorem UpdateClusterStatus_empty_endpoint_ready:
  "snd (UpdateClusterStatus 1000 (testManager testClient [] \<lparr>Host = [], Port = 0\<rparr> emptyStatus)) = None
   \<and> Status (BareMetalCluster
        (fst (UpdateClusterStatus 1000 (testManager testClient [] \<lparr>Host = [], Port = 0\<rparr> emptyStatus))))
     = \<lparr>LastUpdated = Some 1000, FailureReason = None, FailureMessage = None, Ready = True,
        APIEndpoints = []\<rparr>"
  by (simp add: UpdateClusterStatus_unfold Status_set_Status testManager_simps emptyStatus_def)

text \<open>
  C2. For a spec with a host and a non-zero port, \<^verbatim>\<open>UpdateClusterStatus\<close> returns no
  error, sets \<^verbatim>\<open>Ready\<close>, stamps \<^verbatim>\<open>LastUpdated\<close> with the current time, and leaves both
  error fields as they were before the call: unset when they were unset.
\<close>

theorem UpdateClusterStatus_valid_endpoint:
  assumes "Host (ControlPlaneEndpoint_spec (Spec (BareMetalCluster s))) \<noteq> []"
    and "Port (ControlPlaneEndpoint_spec (Spec (BareMetalCluster s))) \<noteq> 0"
  shows "snd (UpdateClusterStatus now s) = None
    \<and> Ready (Status (BareMetalCluster (fst (UpdateClusterStatus now s)))) = True
    \<and> LastUpdated (Status (BareMetalCluster (fst (UpdateClusterStatus now s)))) = Some now
    \<and> FailureMessage (Status (BareMetalCluster (fst (UpdateClusterStatus now s))))
        = FailureMessage (Status (BareMetalCluster s))
    \<and> FailureReason (Status (BareMetalCluster (fst (UpdateClusterStatus now s))))
        = FailureReason (Status (BareMetalCluster s))"
proof -
  have "snd (ControlPlaneEndpoint s) = None"
    using assms by (simp add: ControlPlaneEndpoint_def Let_def)
  then have "UpdateClusterStatus now s =
      (set_Status ((Status (BareMetalCluster s))\<lparr>Ready := True, LastUpdated := Some now\<rparr>) s, None)"
    by (simp add: UpdateClusterStatus_def set_Status_def Let_def)
  then show ?thesis
    by (simp add: Status_set_Status)
qed

text \<open>
  The scenario's endpoint on an empty status: the error fields are unset after the call.
\<close>

theorem UpdateClusterStatus_valid_endpoint_witness:
  "Host \<lparr>Host = ''192.168.111.249'', Port = 6443\<rparr> \<noteq> []
   \<and> Port \<lparr>Host = ''192.168.111.249'', Port = 6443\<rparr> \<noteq> 0
   \<and> snd (UpdateClusterStatus 1000
        (testManager testClient [] \<lparr>Host = ''192.168.111.249'', Port = 6443\<rparr> emptyStatus)) = None
   \<and> Ready (Status (BareMetalCluster (fst (UpdateClusterStatus 1000
        (testManager testClient [] \<lparr>Host = ''192.168.111.249'', Port = 6443\<rparr> emptyStatus)))))
   \<and> LastUpdated (Status (BareMetalCluster (fst (UpdateClusterStatus 1000
        (testManager testClient [] \<lparr>Host = ''192.168.111.249'', Port = 6443\<rparr> emptyStatus))))) = Some 1000
   \<and> FailureMessage (Status (BareMetalCluster (fst (UpdateClusterStatus 1000
        (testManager testClient [] \<lparr>Host = ''192.168.111.249'', Port = 6443\<rparr> emptyStatus))))) = None
   \<and> FailureReason (Status (BareMetalCluster (fst (UpdateClusterStatus 1000
        (testManager testClient [] \<lparr>Host = ''192.168.111.249'', Port = 6443\<rparr> emptyStatus))))) = None"
  using UpdateClusterStatus_valid_endpoint
    [of "testManager testClient [] \<lparr>Host = ''192.168.111.249'', Port = 6443\<rparr> emptyStatus" 1000]
  by (simp add: testManager_simps emptyStatus_def)

text \<open>
  The method does not clear an error recorded earlier: on a status that holds the message
  \<^verbatim>\<open>cba\<close>, with a valid endpoint in the spec, the error record is still there after the
  call.
\<close>

theorem UpdateClusterStatus_keeps_recorded_error:
  "Host (ControlPlaneEndpoint_spec (Spec (BareMetalCluster
      (testManager testClient [] \<lparr>Host = ''192.168.111.249'', Port = 6443\<rparr> failedStatus)))) \<noteq> []
   \<and> Port (ControlPlaneEndpoint_spec (Spec (BareMetalCluster
      (testManager testClient [] \<lparr>Host = ''192.168.111.249'', Port = 6443\<rparr> failedStatus)))) \<noteq> 0
   \<and> FailureMessage (Status (BareMetalCluster (fst (UpdateClusterStatus 1000
        (testManager testClient [] \<lparr>Host = ''192.168.111.249'', Port = 6443\<rparr> failedStatus)))))
       = Some ''cba''
   \<and> FailureReason (Status (BareMetalCluster (fst (UpdateClusterStatus 1000
        (testManager testClient [] \<lparr>Host = ''192.168.111.249'', Port = 6443\<rparr> failedStatus)))))
       = Some InvalidConfigurationClusterError"
  by (simp add: UpdateClusterStatus_unfold Status_set_Status testManager_simps failedStatus_def)

text \<open>
  C3. For the endpoint with the host \<^verbatim>\<open>192.168.111.249\<close> and the port 6443,
  \<^verbatim>\<open>ControlPlaneEndpoint\<close> returns exactly one endpoint, with this host and this port, and no
  error; \<^verbatim>\<open>UpdateClusterStatus\<close> returns no error and sets \<^verbatim>\<open>Ready\<close>. It drops the
  endpoint: the endpoints of the status are what they were before the call.
\<close>

theorem UpdateClusterStatus_scenario:
  assumes "ControlPlaneEndpoint_spec (Spec (BareMetalCluster s))
             = \<lparr>Host = ''192.168.111.249'', Port = 6443\<rparr>"
  shows "ControlPlaneEndpoint s = ([\<lparr>Host = ''192.168.111.249'', Port = 6443\<rparr>], None)
    \<and> snd (UpdateClusterStatus now s) = None
    \<and> Ready (Status (BareMetalCluster (fst (UpdateClusterStatus now s)))) = True
    \<and> APIEndpoints (Status (BareMetalCluster (fst (UpdateClusterStatus now s))))
        = APIEndpoints (Status (BareMetalCluster s))"
proof -
  have "ControlPlaneEndpoint s = ([\<lparr>Host = ''192.168.111.249'', Port = 6443\<rparr>], None)"
    using assms by (simp add: ControlPlaneEndpoint_def Let_def)
  then show ?thesis
    by (simp add: UpdateClusterStatus_unfold Status_set_Status)
qed

text \<open>
  The scenario on an empty status.
\<close>

theorem UpdateClusterStatus_scenario_witness:
  "ControlPlaneEndpoint
      (testManager testClient [] \<lparr>Host = ''192.168.111.249'', Port = 6443\<rparr> emptyStatus)
     = ([\<lparr>Host = ''192.168.111.249'', Port = 6443\<rparr>], None)
   \<and> snd (UpdateClusterStatus 1000
        (testManager testClient [] \<lparr>Host = ''192.168.111.249'', Port = 6443\<rparr> emptyStatus)) = None
   \<and> Ready (Status (BareMetalCluster (fst (UpdateClusterStatus 1000
        (testManager testClient [] \<lparr>Host = ''192.168.111.249'', Port = 6443\<rparr> emptyStatus)))))
   \<and> APIEndpoints (Status (BareMetalCluster (fst (UpdateClusterStatus 1000
        (testManager testClient [] \<lparr>Host = ''192.168.111.249'', Port = 6443\<rparr> emptyStatus))))) = []"
  using UpdateClusterStatus_scenario
    [of "testManager testClient [] \<lparr>Host = ''192.168.111.249'', Port = 6443\<rparr> emptyStatus" 1000]
  by (simp add: testManager_simps emptyStatus_def)

text \<open>
  On an empty status the scenario ends with no endpoint in the status, not with one.
\<close>

theorem UpdateClusterStatus_scenario_no_status_endpoint:
  "ControlPlaneEndpoint_spec (Spec (BareMetalCluster
      (testManager testClient [] \<lparr>Host = ''192.168.111.249'', Port = 6443\<rparr> emptyStatus)))
     = \<lparr>Host = ''192.168.111.249'', Port = 6443\<rparr>
   \<and> APIEndpoints (Status (BareMetalCluster (fst (UpdateClusterStatus 1000
        (testManager testClient [] \<lparr>Host = ''192.168.111.249'', Port = 6443\<rparr> emptyStatus))))) = []
   \<and> APIEndpoints (Status (BareMetalCluster (fst (UpdateClusterStatus 1000
        (testManager testClient [] \<lparr>Host = ''192.168.111.249'', Port = 6443\<rparr> emptyStatus)))))
       \<noteq> [\<lparr>Host = ''192.168.111.249'', Port = 6443\<rparr>]"
  by (simp add: UpdateClusterStatus_unfold Status_set_Status testManager_simps emptyStatus_def)

text \<open>
  A second \<^verbatim>\<open>UpdateClusterStatus\<close> changes nothing but the time stamp.
\<close>

theorem UpdateClusterStatus_idempotent:
  "fst (UpdateClusterStatus later (fst (UpdateClusterStatus now s)))
     = fst (UpdateClusterStatus later s)
   \<and> snd (UpdateClusterStatus later (fst (UpdateClusterStatus now s))) = None"
  by (simp add: UpdateClusterStatus_unfold set_Status_def)

text \<open>
  \<^verbatim>\<open>Delete\<close> changes nothing and returns no error.
\<close>

theorem Delete_does_nothing: "Delete s = (s, None)"
  by (simp add: Delete_def)

subsection \<open>Descendants\<close>

text \<open>
  C8. \<^verbatim>\<open>CountDescendants\<close> is to return every failure of the list request as an error.
  The method loses it: \<^verbatim>\<open>listDescendants\<close> wraps the error of the owner lookup, \<^verbatim>\<open>nil\<close>
  at that point, and \<^verbatim>\<open>Wrapf\<close> of \<^verbatim>\<open>nil\<close> is \<^verbatim>\<open>nil\<close>. Against a store whose list
  request fails with \<^verbatim>\<open>connection refused\<close>, \<^verbatim>\<open>CountDescendants\<close> returns the count 0 and
  no error.
\<close>

theorem CountDescendants_list_failure_lost:
  "snd (List failingClient
          \<lparr>InNamespace = ''testNameSpace'', MatchingLabels = [(ClusterLabelName, ''testCluster'')]\<rparr>
          \<lparr>Items = []\<rparr>) = Some (Error ''connection refused'')
   \<and> listDescendants (testManager failingClient [] \<lparr>Host = ''192.168.111.249'', Port = 6443\<rparr> emptyStatus)
       = Inr (\<lparr>Items = []\<rparr>, None)
   \<and> CountDescendants (testManager failingClient [] \<lparr>Host = ''192.168.111.249'', Port = 6443\<rparr> emptyStatus)
       = Inr (0, None)"
proof -
  let ?s = "testManager failingClient [] \<lparr>Host = ''192.168.111.249'', Port = 6443\<rparr> emptyStatus"
  have owner: "GetOwnerCluster (client ?s) (ObjectMeta (BareMetalCluster ?s)) = (Some testCluster, None)"
    by (simp add: testManager_simps failingClient_def store_client_def testMeta_def testCluster_def)
  have l: "List failingClient opts \<lparr>Items = []\<rparr> = (\<lparr>Items = []\<rparr>, Some (Error ''connection refused''))"
    for opts
    by (simp add: failingClient_def store_client_def)
  have ld: "listDescendants ?s = Inr (\<lparr>Items = []\<rparr>, None)"
    using owner l by (simp add: listDescendants_def Let_def testManager_simps)
  show ?thesis
    using ld l by (simp add: CountDescendants_def)
qed

text \<open>
  When the owner is found and the list request succeeds, \<^verbatim>\<open>CountDescendants\<close> returns
  the number of machines the store lists for the owner's namespace and the owner's name as
  the cluster label, and no error.
\<close>

theorem CountDescendants_counts_listed:
  assumes "GetOwnerCluster (client s) (ObjectMeta (BareMetalCluster s)) = (Some cl, None)"
    and "List (client s)
           \<lparr>InNamespace = Namespace (Cluster_ObjectMeta cl),
            MatchingLabels = [(ClusterLabelName, Name (Cluster_ObjectMeta cl))]\<rparr>
           \<lparr>Items = []\<rparr> = (ml, None)"
  shows "CountDescendants s = Inr (int (length (Items ml)), None)"
  using listDescendants_listed [OF assms] by (simp add: CountDescendants_def)

text \<open>
  A store with two machines of the cluster, one machine of another namespace and one of
  another cluster: the count is 2.
\<close>

theorem CountDescendants_counts_listed_witness:
  "CountDescendants (testManager mixedClient [] \<lparr>Host = ''192.168.111.249'', Port = 6443\<rparr> emptyStatus)
     = Inr (2, None)"
proof -
  let ?s = "testManager mixedClient [] \<lparr>Host = ''192.168.111.249'', Port = 6443\<rparr> emptyStatus"
  have owner: "GetOwnerCluster (client ?s) (ObjectMeta (BareMetalCluster ?s)) = (Some testCluster, None)"
    by (simp add: testManager_simps mixedClient_def store_client_def testMeta_def testCluster_def)
  have l: "List (client ?s)
        \<lparr>InNamespace = Namespace (Cluster_ObjectMeta testCluster),
         MatchingLabels = [(ClusterLabelName, Name (Cluster_ObjectMeta testCluster))]\<rparr>
        \<lparr>Items = []\<rparr>
      = (\<lparr>Items = [testMachine ''machine1'', testMachine ''machine2'']\<rparr>, None)"
    by (simp add: testManager_simps mixedClient_def store_client_def selected_def has_labels_def
        testMachine_def testMeta_def testCluster_def ClusterLabelName_def)
  show ?thesis
    using CountDescendants_counts_listed [OF owner l] by simp
qed

text \<open>
  An error of the owner lookup is returned as it is, with the count 0.
\<close>

theorem CountDescendants_owner_error_returned:
  assumes "GetOwnerCluster (client s) (ObjectMeta (BareMetalCluster s)) = (cluster, Some e)"
  shows "CountDescendants s = Inr (0, Some e)"
  using assms by (simp add: CountDescendants_def listDescendants_def Let_def)

text \<open>
  A store that does not hold the owning cluster.
\<close>

theorem CountDescendants_owner_error_returned_witness:
  "CountDescendants (testManager orphanClient [] \<lparr>Host = ''192.168.111.249'', Port = 6443\<rparr> emptyStatus)
     = Inr (0, Some (Error ''clusters testCluster not found''))"
proof -
  let ?s = "testManager orphanClient [] \<lparr>Host = ''192.168.111.249'', Port = 6443\<rparr> emptyStatus"
  have owner: "GetOwnerCluster (client ?s) (ObjectMeta (BareMetalCluster ?s))
      = (None, Some (Error ''clusters testCluster not found''))"
    by (simp add: testManager_simps orphanClient_def store_client_def testMeta_def)
  show ?thesis
    using CountDescendants_owner_error_returned [OF owner] by simp
qed

text \<open>
  Whatever error the list request fails with, \<^verbatim>\<open>CountDescendants\<close> returns no error, and
  the length of the list the failed request left behind.
\<close>

theorem CountDescendants_list_error_dropped:
  assumes "GetOwnerCluster (client s) (ObjectMeta (BareMetalCluster s)) = (Some cl, None)"
    and "List (client s)
           \<lparr>InNamespace = Namespace (Cluster_ObjectMeta cl),
            MatchingLabels = [(ClusterLabelName, Name (Cluster_ObjectMeta cl))]\<rparr>
           \<lparr>Items = []\<rparr> = (ml, Some e)"
  shows "CountDescendants s = Inr (int (length (Items ml)), None)"
  using listDescendants_listed [OF assms] by (simp add: CountDescendants_def)

text \<open>
  The store whose list request fails.
\<close>

theorem CountDescendants_list_error_dropped_witness:
  "CountDescendants (testManager failingClient [] \<lparr>Host = [], Port = 0\<rparr> emptyStatus)
     = Inr (0, None)"
proof -
  let ?s = "testManager failingClient [] \<lparr>Host = [], Port = 0\<rparr> emptyStatus"
  have owner: "GetOwnerCluster (client ?s) (ObjectMeta (BareMetalCluster ?s)) = (Some testCluster, None)"
    by (simp add: testManager_simps failingClient_def store_client_def testMeta_def testCluster_def)
  have l: "List (client ?s)
        \<lparr>InNamespace = Namespace (Cluster_ObjectMeta testCluster),
         MatchingLabels = [(ClusterLabelName, Name (Cluster_ObjectMeta testCluster))]\<rparr>
        \<lparr>Items = []\<rparr>
      = (\<lparr>Items = []\<rparr>, Some (Error ''connection refused''))"
    by (simp add: testManager_simps failingClient_def store_client_def)
  show ?thesis
    using CountDescendants_list_error_dropped [OF owner l] by simp
qed

end
